theory Spec2Isabelle
  imports Complex_Main
begin

section \<open>Values, strings and library functions\<close>

text \<open>
  The harmonizer (\<^verbatim>\<open>lfs_harmonizer_complete_v8.py\<close>) works on pandas data frames.
  A cell of a raw column is missing (\<^verbatim>\<open>None\<close>, \<^verbatim>\<open>NaN\<close>), a number or a string.
  Numbers are 64-bit floats in the program; here they are exact reals, so rounding is
  exact decimal rounding, and the non-finite floats are not represented.
  Strings are byte strings over the Latin-1 range; \<^verbatim>\<open>upper\<close>, \<^verbatim>\<open>lower\<close> and
  \<^verbatim>\<open>strip\<close> act on the ASCII letters and on the white space of that range.
\<close>

datatype cell = NA | Num real | Str string

datatype py_error = KeyError string

text \<open>
  Two parsers of the Python libraries are not part of the repository and are taken as
  parameters: \<^verbatim>\<open>pd.to_numeric(..., errors='coerce')\<close> on one string element, and
  \<^verbatim>\<open>float(...)\<close> with its \<^verbatim>\<open>except\<close> branch. Both give \<open>None\<close> for
  \<^verbatim>\<open>NaN\<close>.
\<close>

record pylib =
  to_numeric :: "string \<Rightarrow> real option"
  py_float :: "string \<Rightarrow> real option"

definition is_space :: "char \<Rightarrow> bool" where
  "is_space c = (c \<in> set [CHR 0x09, CHR 0x0A, CHR 0x0B, CHR 0x0C, CHR 0x0D,
      CHR 0x1C, CHR 0x1D, CHR 0x1E, CHR 0x1F, CHR 0x20, CHR 0x85, CHR 0xA0])"

definition strip :: "string \<Rightarrow> string" where
  "strip s = rev (dropWhile is_space (rev (dropWhile is_space s)))"

definition upper_char :: "char \<Rightarrow> char" where
  "upper_char c =
     (case map_of (zip ''abcdefghijklmnopqrstuvwxyz'' ''ABCDEFGHIJKLMNOPQRSTUVWXYZ'') c of
        None \<Rightarrow> c | Some u \<Rightarrow> u)"

definition lower_char :: "char \<Rightarrow> char" where
  "lower_char c =
     (case map_of (zip ''ABCDEFGHIJKLMNOPQRSTUVWXYZ'' ''abcdefghijklmnopqrstuvwxyz'') c of
        None \<Rightarrow> c | Some l \<Rightarrow> l)"

definition upper :: "string \<Rightarrow> string" where
  "upper s = map upper_char s"

definition lower :: "string \<Rightarrow> string" where
  "lower s = map lower_char s"

text \<open>\<^verbatim>\<open>int(val)\<close> on a float truncates towards zero.\<close>

definition py_int :: "real \<Rightarrow> int" where
  "py_int r = (if 0 \<le> r then \<lfloor>r\<rfloor> else \<lceil>r\<rceil>)"

text \<open>
  \<^verbatim>\<open>round(x, 2)\<close>: to two decimals, a tie going to the even neighbour.
\<close>

definition round_half_even :: "real \<Rightarrow> int" where
  "round_half_even y =
     (let f = \<lfloor>y\<rfloor>; d = y - of_int f in
      if d < 1 / 2 then f else if 1 / 2 < d then f + 1
      else if even f then f else f + 1)"

definition round2 :: "real \<Rightarrow> real" where
  "round2 x = of_int (round_half_even (x * 100)) / 100"

definition safe_numeric :: "pylib \<Rightarrow> cell \<Rightarrow> real option" where
  "safe_numeric lib x =
     (case x of
        NA \<Rightarrow> None
      | Num v \<Rightarrow> Some v
      | Str s \<Rightarrow>
          (let s' = strip s in
           if s' = [] \<or> lower s' \<in> set [''nan'', ''na'', ''.'', ''none''] then None
           else py_float lib s'))"

definition safe_int :: "pylib \<Rightarrow> cell \<Rightarrow> int option" where
  "safe_int lib x = (case safe_numeric lib x of None \<Rightarrow> None | Some val \<Rightarrow> Some (py_int val))"

section \<open>Translation functions\<close>

text \<open>
  Each translator takes the raw code and the release year and returns the canonical
  code, or \<open>None\<close> for \<^verbatim>\<open>np.nan\<close>. A dictionary literal with
  \<^verbatim>\<open>.get(code, np.nan)\<close> is \<open>map_of\<close> on its items.
\<close>

definition mstat_table_2010 :: "(int \<times> int) list" where
  "mstat_table_2010 = [(1, 1), (2, 2), (3, 4), (4, 6), (5, 8)]"

definition mstat_table_2014 :: "(int \<times> int) list" where
  "mstat_table_2014 = [(1, 1), (2, 2), (3, 4), (4, 6), (5, 8), (6, 7)]"

definition mstat_table_2023 :: "(int \<times> int) list" where
  "mstat_table_2023 = [(1, 1), (2, 2), (3, 4), (4, 6), (5, 7), (6, 8)]"

definition translate_mstat :: "pylib \<Rightarrow> cell \<Rightarrow> int \<Rightarrow> int option" where
  "translate_mstat lib code0 year =
     (case safe_int lib code0 of
        None \<Rightarrow> None
      | Some code \<Rightarrow>
          if year \<le> 2010 then map_of mstat_table_2010 code
          else if year \<le> 2014 then map_of mstat_table_2014 code
          else if year \<le> 2023 then map_of mstat_table_2023 code
          else Some code)"

definition grade_table_2016 :: "(int \<times> int) list" where
  "grade_table_2016 =
     [(210, 10011), (220, 10012), (230, 10013), (240, 10014), (250, 10015), (260, 10016)]"

definition translate_grade :: "pylib \<Rightarrow> cell \<Rightarrow> int \<Rightarrow> int option" where
  "translate_grade lib code0 year =
     (case safe_int lib code0 of
        None \<Rightarrow> None
      | Some code \<Rightarrow>
          if year \<le> 2011 then
            (if code = 0 then Some 0
             else if code = 1 then Some 10012
             else if code = 2 then Some 10018
             else if code = 3 then Some 24012
             else if code = 4 then Some 35011
             else if code = 5 then Some 54011
             else if 60 \<le> code \<and> code \<le> 68 then Some 55011
             else if 70 \<le> code \<and> code \<le> 76 then Some 64011
             else None)
          else if year \<le> 2016 then
            (if code = 0 then Some 0
             else if code = 10 then Some 2000
             else if 210 \<le> code \<and> code \<le> 260 then
               Some (case map_of grade_table_2016 code of None \<Rightarrow> 10012 | Some v \<Rightarrow> v)
             else if code = 270 then Some 10017
             else if code = 280 then Some 10018
             else if 310 \<le> code \<and> code \<le> 340 then Some (24011 + (code - 310) div 10)
             else if code = 350 then Some 35011
             else if 410 \<le> code \<and> code \<le> 499 then Some 44011
             else if 510 \<le> code \<and> code \<le> 559 then Some 54011
             else if 560 \<le> code \<and> code \<le> 599 then Some 55011
             else if 610 \<le> code \<and> code \<le> 699 then Some 64011
             else None)
          else if year \<le> 2018 then
            (if code = 0 then Some 0
             else if code \<in> set [1, 2, 10] then Some 2000
             else if 110 \<le> code \<and> code \<le> 160 then Some (10011 + (code - 110) div 10)
             else if code \<in> set [170, 180, 191, 192] then Some 10018
             else if 210 \<le> code \<and> code \<le> 240 then Some (24011 + (code - 210) div 10)
             else if code = 250 then Some 24015
             else if 310 \<le> code \<and> code \<le> 320 then Some 34011
             else if code = 350 then Some 35011
             else if 410 \<le> code \<and> code \<le> 499 then Some 44011
             else if 510 \<le> code \<and> code \<le> 559 then Some 54011
             else if 560 \<le> code \<and> code \<le> 599 then Some 55011
             else if 610 \<le> code \<and> code \<le> 699 then Some 64011
             else None)
          else if year \<le> 2022 then
            (if 0 \<le> code \<and> code \<le> 1000 then Some 0
             else if code = 2000 then Some 2000
             else if 10011 \<le> code \<and> code \<le> 64011 then Some code
             else None)
          else Some code)"

definition translate_pclass :: "pylib \<Rightarrow> cell \<Rightarrow> int \<Rightarrow> int option" where
  "translate_pclass lib code0 year =
     (case safe_int lib code0 of
        None \<Rightarrow> None
      | Some code \<Rightarrow> if code \<in> set [0, 1, 2, 3, 4, 5, 6] then Some code else None)"

definition translate_natem :: "pylib \<Rightarrow> cell \<Rightarrow> int \<Rightarrow> int option" where
  "translate_natem lib code0 year =
     (case safe_int lib code0 of
        None \<Rightarrow> None
      | Some code \<Rightarrow> if code \<in> set [1, 2, 3] then Some code else None)"

definition translate_pbasis :: "pylib \<Rightarrow> cell \<Rightarrow> int \<Rightarrow> int option" where
  "translate_pbasis lib code0 year =
     (case safe_int lib code0 of
        None \<Rightarrow> None
      | Some code \<Rightarrow> if code \<in> set [0, 1, 2, 3, 4, 5, 6, 7] then Some code else None)"

definition translate_wynot :: "pylib \<Rightarrow> cell \<Rightarrow> int \<Rightarrow> int option" where
  "translate_wynot lib code0 year =
     (case safe_int lib code0 of
        None \<Rightarrow> None
      | Some code \<Rightarrow>
          if year < 2021 then
            (if code = 6 then Some 61
             else if code \<in> set [0, 1, 2, 3, 4, 5, 7, 8, 9] then Some code else None)
          else Some code)"

definition translate_conwr :: "pylib \<Rightarrow> cell \<Rightarrow> int \<Rightarrow> int option" where
  "translate_conwr lib code0 year =
     (case safe_int lib code0 of
        None \<Rightarrow> None
      | Some code \<Rightarrow> if code \<in> set [1, 2, 3, 4, 5] then Some code else None)"

definition translate_yesno :: "pylib \<Rightarrow> cell \<Rightarrow> int \<Rightarrow> int option" where
  "translate_yesno lib code0 year =
     (case safe_int lib code0 of
        None \<Rightarrow> None
      | Some code \<Rightarrow> if code \<in> set [1, 2] then Some code else None)"

definition translate_rel :: "pylib \<Rightarrow> cell \<Rightarrow> int \<Rightarrow> int option" where
  "translate_rel lib code0 year =
     (case safe_int lib code0 of
        None \<Rightarrow> None
      | Some code \<Rightarrow> if 1 \<le> code \<and> code \<le> 26 then Some code else None)"

text \<open>
  \<^verbatim>\<open>TRANSLATION_MAP\<close> maps a canonical field to its translator. The translators are
  named by a datatype, and \<open>run_translator\<close> calls the function a name stands for.
\<close>

datatype translator =
  T_rel | T_mstat | T_grade | T_conwr | T_natem | T_yesno | T_pclass | T_pbasis | T_wynot

fun run_translator :: "translator \<Rightarrow> pylib \<Rightarrow> cell \<Rightarrow> int \<Rightarrow> int option" where
  "run_translator T_rel = translate_rel"
| "run_translator T_mstat = translate_mstat"
| "run_translator T_grade = translate_grade"
| "run_translator T_conwr = translate_conwr"
| "run_translator T_natem = translate_natem"
| "run_translator T_yesno = translate_yesno"
| "run_translator T_pclass = translate_pclass"
| "run_translator T_pbasis = translate_pbasis"
| "run_translator T_wynot = translate_wynot"

definition TRANSLATION_MAP :: "(string \<times> translator) list" where
  "TRANSLATION_MAP =
     [(''PUFC03_REL'', T_rel), (''PUFC06_MSTAT'', T_mstat), (''PUFC07_GRADE'', T_grade),
      (''PUFC10_CONWR'', T_conwr), (''PUFC17_NATEM'', T_natem),
      (''PUFC20_PWMORE'', T_yesno), (''PUFC21_PLADDW'', T_yesno),
      (''PUFC22_PFWRK'', T_yesno), (''PUFC23_PCLASS'', T_pclass), (''PUFC24_PBASIS'', T_pbasis),
      (''PUFC26_OJOB'', T_yesno), (''PUFC30_LOOKW'', T_yesno), (''PUFC31_FLWRK'', T_yesno),
      (''PUFC34_WYNOT'', T_wynot), (''PUFC36_AVAIL'', T_yesno), (''PUFC37_WILLING'', T_yesno),
      (''PUFC38_PREVJOB'', T_yesno), (''PUFC11_WORK'', T_yesno), (''PUFC12_JOB'', T_yesno)]"

section \<open>Era bands and accepted codes\<close>

text \<open>
  The year tests of a translator's \<^verbatim>\<open>if\<close>/\<^verbatim>\<open>elif\<close> chain, read as closed
  intervals of years (\<open>None\<close> is an open end): \<^verbatim>\<open>year <= 2010\<close>,
  \<^verbatim>\<open>elif year <= 2014\<close>, \<^verbatim>\<open>elif year <= 2023\<close> and the final \<^verbatim>\<open>return code\<close>
  of \<^verbatim>\<open>translate_mstat\<close> are the four bands of \<open>T_mstat\<close>. A translator that
  never looks at the year has the single band of all years.
\<close>

type_synonym band = "int option \<times> int option"

definition in_band :: "int \<Rightarrow> band \<Rightarrow> bool" where
  "in_band y b =
     ((case fst b of None \<Rightarrow> True | Some lo \<Rightarrow> lo \<le> y) \<and>
      (case snd b of None \<Rightarrow> True | Some hi \<Rightarrow> y \<le> hi))"

fun eras :: "translator \<Rightarrow> band list" where
  "eras T_mstat =
     [(None, Some 2010), (Some 2011, Some 2014), (Some 2015, Some 2023), (Some 2024, None)]"
| "eras T_grade =
     [(None, Some 2011), (Some 2012, Some 2016), (Some 2017, Some 2018),
      (Some 2019, Some 2022), (Some 2023, None)]"
| "eras T_wynot = [(None, Some 2020), (Some 2021, None)]"
| "eras T_rel = [(None, None)]"
| "eras T_conwr = [(None, None)]"
| "eras T_natem = [(None, None)]"
| "eras T_yesno = [(None, None)]"
| "eras T_pclass = [(None, None)]"
| "eras T_pbasis = [(None, None)]"

fun era_of :: "translator \<Rightarrow> int \<Rightarrow> band" where
  "era_of T_mstat y =
     (if y \<le> 2010 then (None, Some 2010) else if y \<le> 2014 then (Some 2011, Some 2014)
      else if y \<le> 2023 then (Some 2015, Some 2023) else (Some 2024, None))"
| "era_of T_grade y =
     (if y \<le> 2011 then (None, Some 2011) else if y \<le> 2016 then (Some 2012, Some 2016)
      else if y \<le> 2018 then (Some 2017, Some 2018)
      else if y \<le> 2022 then (Some 2019, Some 2022) else (Some 2023, None))"
| "era_of T_wynot y = (if y < 2021 then (None, Some 2020) else (Some 2021, None))"
| "era_of T_rel y = (None, None)"
| "era_of T_conwr y = (None, None)"
| "era_of T_natem y = (None, None)"
| "era_of T_yesno y = (None, None)"
| "era_of T_pclass y = (None, None)"
| "era_of T_pbasis y = (None, None)"



text \<open>A library whose two parsers reject every string, for concrete evaluations.\<close>

definition no_parse :: pylib where
  "no_parse = \<lparr>to_numeric = (\<lambda>s. None), py_float = (\<lambda>s. None)\<rparr>"

section \<open>Configuration\<close>

definition COLUMN_PRIORITY :: "(string \<times> string list) list" where
  "COLUMN_PRIORITY =
     [(''PUFREG'',
        [''PUFREG'', ''CREG'', ''REG'']),
      (''PUFSVYYR'',
        [''PUFSVYYR'', ''SVYYR'', ''CYEAR'']),
      (''PUFSVYMO'',
        [''PUFSVYMO'', ''SVYMO'', ''CMONTH'']),
      (''PUFHHNUM'',
        [''PUFHHNUM'', ''HHNUM'']),
      (''PUFPSU'',
        [''PUFPSU'', ''PSU'', ''PSU_NO'', ''STRATUM'']),
      (''PUFHHSIZE'',
        [''PUFHHSIZE'', ''HHID'']),
      (''PUFRPL'',
        [''PUFRPL'', ''CRPM'']),
      (''PUFPWGTPRV'',
        [''PUFPWGTPRV'', ''PUFPWGT'', ''PUFPWGTFIN'', ''CFWGT'', ''FWGT'', ''PWGT'']),
      (''PUFC01_LNO'',
        [''PUFC01_LNO'', ''C101_LNO'', ''CC101_LNO'', ''C04_LNO'', ''A01_LNO'']),
      (''PUFC03_REL'',
        [''PUFC03_REL'', ''C05_REL'', ''CC05_REL'', ''C03_NEWMEM'', ''CC03_NEWMEM'']),
      (''PUFC04_SEX'',
        [''PUFC04_SEX'', ''C06_SEX'', ''CC06_SEX'']),
      (''PUFC05_AGE'',
        [''PUFC05_AGE'', ''C07_AGE'', ''CC07_AGE'']),
      (''PUFC06_MSTAT'',
        [''PUFC06_MSTAT'', ''C08_MSTAT'', ''C08_MS'', ''CC08_MSTAT'', ''CC08_MS'']),
      (''PUFC07_GRADE'',
        [''PUFC07_GRADE'', ''J12C09_GRADE'', ''C09_GRD'', ''C09_GRADE'', ''CC09_GRADE'']),
      (''PUFC08_CURSCH'',
        [''PUFC08_CURSCH'', ''A02_CURSCH'', ''A02_CSCH'']),
      (''PUFC09_GRADTECH'',
        [''PUFC09_GRADTECH'', ''J12C11_GRADTECH'', ''J12C11COURSE'']),
      (''PUFC10_CONWR'',
        [''PUFC10_CONWR'', ''PUFC08_CONWR'', ''C10_CONWR'', ''C10_CNWR'', ''CC10_CONWR'']),
      (''PUFC11_WORK'',
        [''PUFC11_WORK'', ''PUFC09_WORK'', ''C13_WORK'', ''CC13_WORK'', ''CC01_WORK'',
        ''B01_WORK'']),
      (''PUFC12_JOB'',
        [''PUFC12_JOB'', ''PUFC10_JOB'', ''C14_JOB'', ''CC14_JOB'', ''CC02_JOB'', ''B02_JOB'']),
      (''PUFNEWEMPSTAT'',
        [''PUFNEWEMPSTAT'', ''NEWEMPSTAT'', ''CEMPST1'', ''CEMPST2'', ''NEWEMPST'']),
      (''PUFC14_PROCC'',
        [''PUFC14_PROCC'', ''PUFC13_PROCC'', ''C16_PROCC'', ''C16_PROC'', ''CC16_PROCC'',
        ''C16F2_PROCC'', ''C16L2_PROCC'', ''CC12_USOCC'', ''J01_USOCC'', ''J01_USOC'']),
      (''PUFC16_PKB'',
        [''PUFC16_PKB'', ''PUFC15_PKB'', ''C18_PKB'', ''CC18_PKB'', ''C18F2_PKB'',
        ''C18L2_PKB'', ''CC06_IND'', ''J03_OKB'']),
      (''PUFC17_NATEM'',
        [''PUFC17_NATEM'', ''PUFC16_NATEM'', ''C20_NATEM'', ''C20_NTEM'', ''CC20_NATEM'']),
      (''PUFC18_PNWHRS'',
        [''PUFC18_PNWHRS'', ''PUFC17_PNWHRS'', ''C21_PNWHRS'', ''C21_PWHR'', ''CC21_PNWHRS'',
        ''CC18_PNWHRS'']),
      (''PUFC19_PHOURS'',
        [''PUFC19_PHOURS'', ''PUFC18_PHOURS'', ''C22_PHOURS'', ''C22_PHRS'', ''CC22_PHOURS'']),
      (''PUFC20_PWMORE'',
        [''PUFC20_PWMORE'', ''PUFC19_PWMORE'', ''C23_PWMORE'', ''C23_PWMR'', ''CC23_PWMORE'']),
      (''PUFC21_PLADDW'',
        [''PUFC21_PLADDW'', ''PUFC20_PLADDW'', ''C24_PLADDW'', ''C24_PLAW'', ''CC24_PLADDW'']),
      (''PUFC22_PFWRK'',
        [''PUFC22_PFWRK'', ''PUFC20B_FTWORK'', ''C25_PFWRK'', ''C25_PFWK'', ''CC25_PFWRK'']),
      (''PUFC23_PCLASS'',
        [''PUFC23_PCLASS'', ''PUFC21_PCLASS'', ''C19_PCLASS'', ''C19PCLAS'', ''CC19_PCLASS'']),
      (''PUFC24_PBASIS'',
        [''PUFC24_PBASIS'', ''C26_PBASIS'', ''C26_PBIS'', ''CC26_PBASIS'']),
      (''PUFC25_PBASIC'',
        [''PUFC25_PBASIC'', ''C27_PBASIC'', ''C27_PBSC'', ''CC27_PBASIC'', ''C36_OBASIC'',
        ''C36_OBIC'']),
      (''PUFC26_OJOB'',
        [''PUFC26_OJOB'', ''PUFC22_OJOB'', ''C28_OJOB'', ''CC28_OJOB'']),
      (''PUFC27_NJOBS'',
        [''PUFC27_NJOBS'', ''A03_JOBS'']),
      (''PUFC28_THOURS'',
        [''PUFC28_THOURS'', ''PUFC23_THOURS'', ''A04_THOURS'', ''A04_THRS'']),
      (''PUFC29_WWM48H'',
        [''PUFC29_WWM48H'', ''PUFC24_WWM48H'', ''A05_RWM48H'', ''A05_R48H'']),
      (''PUFC30_LOOKW'',
        [''PUFC30_LOOKW'', ''PUFC25_LOOKW'', ''C38_LOOKW'', ''C38_LOKW'', ''CC38_LOOKW'',
        ''CC30_LOOKW'']),
      (''PUFC31_FLWRK'',
        [''PUFC31_FLWRK'', ''PUFC25B_FTWORK'', ''C41_FLWRK'', ''C41_FLWK'', ''CC41_FLWRK'']),
      (''PUFC32_JOBSM'',
        [''PUFC32_JOBSM'', ''C39_JOBSM'', ''C39_JBSM'', ''CC39_JOBSM'', ''CC32_JOBSM'']),
      (''PUFC33_WEEKS'',
        [''PUFC33_WEEKS'', ''C40_WEEKS'', ''C40_WKS'', ''CC40_WEEKS'', ''CC33_WEEKS'']),
      (''PUFC34_WYNOT'',
        [''PUFC34_WYNOT'', ''PUFC26_WYNOT'', ''C42_WYNOT'', ''C42_WYNT'', ''CC42_WYNOT'']),
      (''PUFC35_LTLOOKW'',
        [''PUFC35_LTLOOKW'', ''A06_LTLOOKW'', ''A06_LLKW'', ''CC35_LTLOOKW'']),
      (''PUFC36_AVAIL'',
        [''PUFC36_AVAIL'', ''PUFC27_AVAIL'', ''C37_AVAIL'', ''C37_AVIL'', ''CC37_AVAIL'',
        ''CC36_AVAIL'']),
      (''PUFC37_WILLING'',
        [''PUFC37_WILLING'', ''A07_WILLING'', ''A07_WLNG'']),
      (''PUFC38_PREVJOB'',
        [''PUFC38_PREVJOB'', ''PUFC28_PREVJOB'', ''C43_LBEF'', ''CC43_LBEF'']),
      (''PUFC39_YEAR'',
        [''PUFC39_YEAR'', ''PUFC29_YEAR'']),
      (''PUFC39_MONTH'',
        [''PUFC39_MONTH'', ''PUFC29_MONTH'']),
      (''PUFC41_POCC'',
        [''PUFC41_POCC'', ''PUFC40_POCC'', ''PUFC31_POCC'', ''C45_POCC'', ''CC45_POCC'',
        ''C45F2_POCC'', ''C45L2_POCC'', ''CC10_POCC'']),
      (''PUFC43_QKB'',
        [''PUFC43_QKB'', ''PUFC33_QKB'', ''A09_PQKB'', ''A09F2_PQKB'', ''A09L2_PQKB'',
        ''PQKB'', ''QKB''])]"

definition OUTPUT_SCHEMA :: "string list" where
  "OUTPUT_SCHEMA =
     [''PUFREG'', ''PUFSVYYR'', ''PUFSVYMO'', ''PUFHHNUM'', ''PUFPSU'', ''PUFHHSIZE'',
      ''PUFRPL'', ''PUFPWGTPRV'', ''PUFC01_LNO'', ''PUFC03_REL'', ''PUFC04_SEX'',
      ''PUFC05_AGE'', ''PUFC06_MSTAT'', ''PUFC07_GRADE'', ''PUFC08_CURSCH'',
      ''PUFC09_GRADTECH'', ''PUFC10_CONWR'', ''PUFC11_WORK'', ''PUFC12_JOB'',
      ''PUFNEWEMPSTAT'', ''PUFC14_PROCC'', ''PUFC16_PKB'', ''PUFC17_NATEM'',
      ''PUFC18_PNWHRS'', ''PUFC19_PHOURS'', ''PUFC20_PWMORE'', ''PUFC21_PLADDW'',
      ''PUFC22_PFWRK'', ''PUFC23_PCLASS'', ''PUFC24_PBASIS'', ''PUFC25_PBASIC'',
      ''PUFC26_OJOB'', ''PUFC27_NJOBS'', ''PUFC28_THOURS'', ''PUFC29_WWM48H'',
      ''PUFC30_LOOKW'', ''PUFC31_FLWRK'', ''PUFC32_JOBSM'', ''PUFC33_WEEKS'',
      ''PUFC34_WYNOT'', ''PUFC35_LTLOOKW'', ''PUFC36_AVAIL'', ''PUFC37_WILLING'',
      ''PUFC38_PREVJOB'', ''PUFC39_YEAR'', ''PUFC39_MONTH'', ''PUFC41_POCC'', ''PUFC43_QKB'']"

definition priority :: "string \<Rightarrow> string list" where
  \<comment> \<open>\<^verbatim>\<open>COLUMN_PRIORITY.get(target, [target])\<close>\<close>
  "priority target = (case map_of COLUMN_PRIORITY target of None \<Rightarrow> [target] | Some vs \<Rightarrow> vs)"

section \<open>Data frames and the column resolver\<close>

text \<open>
  A raw column has a dtype (only \<^verbatim>\<open>object\<close> or not matters) and its cells; a data frame
  has its number of rows and its named columns, in file order.
\<close>

record column =
  dtype_object :: bool
  cells :: "cell list"

record dataframe =
  df_len :: nat
  df_columns :: "(string \<times> column) list"

definition df_get :: "dataframe \<Rightarrow> string \<Rightarrow> py_error + column" where
  \<comment> \<open>\<^verbatim>\<open>df[name]\<close>\<close>
  "df_get df name =
     (case map_of (df_columns df) name of None \<Rightarrow> Inl (KeyError name) | Some col \<Rightarrow> Inr col)"

definition col_map_upper_of :: "dataframe \<Rightarrow> (string \<rightharpoonup> string)" where
  \<comment> \<open>\<^verbatim>\<open>{c.upper(): c for c in df.columns}\<close>: a later column replaces an earlier one\<close>
  "col_map_upper_of df = fold (\<lambda>c m. m(upper c \<mapsto> c)) (map fst (df_columns df)) Map.empty"

definition dropna :: "cell list \<Rightarrow> cell list" where
  "dropna cs = filter (\<lambda>c. c \<noteq> NA) cs"

definition str_nonblank :: "cell \<Rightarrow> bool" where
  \<comment> \<open>\<^verbatim>\<open>astype(str).str.strip() != ''\<close>; the text of a number is never blank\<close>
  "str_nonblank c = (case c of Str s \<Rightarrow> strip s \<noteq> [] | _ \<Rightarrow> True)"

fun get_column_loop ::
  "dataframe \<Rightarrow> (string \<rightharpoonup> string) \<Rightarrow> string list \<Rightarrow> py_error + (column \<times> string) option"
where
  "get_column_loop df col_map_upper [] = Inr None"
| "get_column_loop df col_map_upper (src # rest) =
     (case col_map_upper (upper src) of
        None \<Rightarrow> get_column_loop df col_map_upper rest
      | Some name \<Rightarrow>
          (case df_get df name of
             Inl e \<Rightarrow> Inl e
           | Inr col \<Rightarrow>
               if 0 < length (dropna (cells col)) then
                 (if dtype_object col then
                    (if 0 < length (filter str_nonblank (dropna (cells col)))
                     then Inr (Some (col, src))
                     else get_column_loop df col_map_upper rest)
                  else Inr (Some (col, src)))
               else get_column_loop df col_map_upper rest))"

definition get_column ::
  "dataframe \<Rightarrow> string \<Rightarrow> (string \<rightharpoonup> string) \<Rightarrow> py_error + (column \<times> string) option"
where
  "get_column df target col_map_upper = get_column_loop df col_map_upper (priority target)"




section \<open>The release processor\<close>

subsection \<open>Cleaning and the per-field record\<close>

definition clean_cell :: "pylib \<Rightarrow> cell \<Rightarrow> real option" where
  "clean_cell lib c = (case c of NA \<Rightarrow> None | Num v \<Rightarrow> Some v | Str s \<Rightarrow> to_numeric lib s)"

definition clean_column :: "pylib \<Rightarrow> column \<Rightarrow> real option list" where
  \<comment> \<open>\<^verbatim>\<open>pd.to_numeric(series, errors='coerce')\<close>\<close>
  "clean_column lib col = map (clean_cell lib) (cells col)"

definition notna_count :: "'a option list \<Rightarrow> int" where
  \<comment> \<open>\<^verbatim>\<open>int(series.notna().sum())\<close>\<close>
  "notna_count xs = int (length (filter (\<lambda>x. x \<noteq> None) xs))"

definition float_cell :: "real option \<Rightarrow> cell" where
  "float_cell x = (case x of None \<Rightarrow> NA | Some v \<Rightarrow> Num v)"

datatype status = MAPPED | MAPPED_TRANSLATED | UNMAPPED

record col_report =
  status :: status
  source_col :: "string option"
  translated :: bool
  raw_nonnull_count :: int
  final_nonnull_count :: int
  null_count :: int
  retention_pct :: real
  null_pct :: real
  translation_loss :: int
  candidates_searched :: "string list option"

definition pct :: "int \<Rightarrow> nat \<Rightarrow> real" where
  \<comment> \<open>\<^verbatim>\<open>round(k / n_rows * 100, 2) if n_rows else 0.0\<close>\<close>
  "pct k n_rows = (if n_rows \<noteq> 0 then round2 (of_int k / of_nat n_rows * 100) else 0)"

text \<open>
  One turn of the loop over \<^verbatim>\<open>OUTPUT_SCHEMA\<close>: the column written to
  \<^verbatim>\<open>out_df[target]\<close> and the record written to \<^verbatim>\<open>col_reports[target]\<close>.
  The first function is the branch of a resolved column, the second the branch of an
  unresolved one.
\<close>

definition mapped_target ::
  "pylib \<Rightarrow> int \<Rightarrow> nat \<Rightarrow> string \<Rightarrow> column \<Rightarrow> string \<Rightarrow> real option list \<times> col_report"
where
  "mapped_target lib yr n_rows target col_data source_used =
     (let raw_nonnull = int (length (dropna (cells col_data)));
          col_data_clean = clean_column lib col_data;
          clean_nonnull = notna_count col_data_clean
      in case map_of TRANSLATION_MAP target of
           Some t \<Rightarrow>
             (let tr = map (\<lambda>x. run_translator t lib (float_cell x) yr) col_data_clean;
                  final_nonnull = notna_count tr
              in (map (map_option of_int) tr,
                  \<lparr>status = MAPPED_TRANSLATED, source_col = Some source_used,
                   translated = True, raw_nonnull_count = raw_nonnull,
                   final_nonnull_count = final_nonnull,
                   null_count = int n_rows - final_nonnull,
                   retention_pct = pct final_nonnull n_rows,
                   null_pct = pct (int n_rows - final_nonnull) n_rows,
                   translation_loss = clean_nonnull - final_nonnull,
                   candidates_searched = None\<rparr>))
         | None \<Rightarrow>
             (col_data_clean,
              \<lparr>status = MAPPED, source_col = Some source_used,
               translated = False, raw_nonnull_count = raw_nonnull,
               final_nonnull_count = clean_nonnull,
               null_count = int n_rows - clean_nonnull,
               retention_pct = pct clean_nonnull n_rows,
               null_pct = pct (int n_rows - clean_nonnull) n_rows,
               translation_loss = 0,
               candidates_searched = None\<rparr>))"

definition unmapped_target :: "nat \<Rightarrow> string \<Rightarrow> real option list \<times> col_report" where
  "unmapped_target n_rows target =
     (replicate n_rows None,
      \<lparr>status = UNMAPPED, source_col = None, translated = False,
       raw_nonnull_count = 0, final_nonnull_count = 0, null_count = int n_rows,
       retention_pct = 0, null_pct = 100, translation_loss = 0,
       candidates_searched = Some (priority target)\<rparr>)"

definition process_target ::
  "pylib \<Rightarrow> dataframe \<Rightarrow> (string \<rightharpoonup> string) \<Rightarrow> int \<Rightarrow> nat \<Rightarrow> string \<Rightarrow>
     py_error + (real option list \<times> col_report)"
where
  "process_target lib df col_map_upper yr n_rows target =
     (case get_column df target col_map_upper of
        Inl e \<Rightarrow> Inl e
      | Inr (Some (col_data, source_used)) \<Rightarrow>
          Inr (mapped_target lib yr n_rows target col_data source_used)
      | Inr None \<Rightarrow> Inr (unmapped_target n_rows target))"

record loop_state =
  out_df :: "string \<rightharpoonup> real option list"
  col_reports :: "string \<rightharpoonup> col_report"
  unmapped_cols :: "string list"

fun target_loop ::
  "pylib \<Rightarrow> dataframe \<Rightarrow> (string \<rightharpoonup> string) \<Rightarrow> int \<Rightarrow> nat \<Rightarrow> string list \<Rightarrow> loop_state \<Rightarrow>
     py_error + loop_state"
where
  "target_loop lib df col_map_upper yr n_rows [] st = Inr st"
| "target_loop lib df col_map_upper yr n_rows (target # rest) st =
     (case process_target lib df col_map_upper yr n_rows target of
        Inl e \<Rightarrow> Inl e
      | Inr (out, rep) \<Rightarrow>
          target_loop lib df col_map_upper yr n_rows rest
            \<lparr>out_df = (out_df st)(target \<mapsto> out),
             col_reports = (col_reports st)(target \<mapsto> rep),
             unmapped_cols =
               (if status rep = UNMAPPED then unmapped_cols st @ [target]
                else unmapped_cols st)\<rparr>)"

subsection \<open>Year and month of a release\<close>

definition path_name :: "string \<Rightarrow> string" where
  \<comment> \<open>\<^verbatim>\<open>Path(filepath).name\<close>\<close>
  "path_name p = rev (takeWhile (\<lambda>c. c \<noteq> CHR ''/'') (rev p))"

definition path_stem :: "string \<Rightarrow> string" where
  \<comment> \<open>\<^verbatim>\<open>Path(filepath).stem\<close>: the name without its last suffix\<close>
  "path_stem p =
     (let name = path_name p;
          suffix = rev (takeWhile (\<lambda>c. c \<noteq> CHR ''.'') (rev name))
      in if CHR ''.'' \<in> set name \<and> length suffix + 1 < length name \<and> suffix \<noteq> []
         then take (length name - length suffix - 1) name else name)"

definition is_digit :: "char \<Rightarrow> bool" where
  "is_digit c = (c \<in> set ''0123456789'')"

definition digit_val :: "char \<Rightarrow> int" where
  "digit_val c = of_char c - 48"

definition year_at :: "string \<Rightarrow> int option" where
  \<comment> \<open>a match of \<^verbatim>\<open>(20\d{2}|199\d)\<close> at the head of the string\<close>
  "year_at s =
     (case s of
        a # b # c # d # _ \<Rightarrow>
          if a = CHR ''2'' \<and> b = CHR ''0'' \<and> is_digit c \<and> is_digit d
            then Some (2000 + 10 * digit_val c + digit_val d)
          else if a = CHR ''1'' \<and> b = CHR ''9'' \<and> c = CHR ''9'' \<and> is_digit d
            then Some (1990 + digit_val d)
          else None
      | _ \<Rightarrow> None)"

fun year_search :: "string \<Rightarrow> int option" where
  \<comment> \<open>\<^verbatim>\<open>re.search\<close>: the leftmost match\<close>
  "year_search [] = None"
| "year_search (c # cs) =
     (case year_at (c # cs) of Some y \<Rightarrow> Some y | None \<Rightarrow> year_search cs)"

fun contains :: "string \<Rightarrow> string \<Rightarrow> bool" where
  \<comment> \<open>\<^verbatim>\<open>pat in s\<close>\<close>
  "contains pat [] = (pat = [])"
| "contains pat (c # cs) = (take (length pat) (c # cs) = pat \<or> contains pat cs)"

definition month_map :: "(string \<times> int) list" where
  "month_map =
     [(''JAN'', 1), (''FEB'', 2), (''MAR'', 3), (''APR'', 4), (''MAY'', 5), (''JUN'', 6),
      (''JUL'', 7), (''AUG'', 8), (''SEP'', 9), (''OCT'', 10), (''NOV'', 11), (''DEC'', 12)]"

definition extract_year_month :: "string \<Rightarrow> int option \<times> int option" where
  "extract_year_month filepath =
     (let filename = upper (path_stem filepath)
      in (year_search filename,
          map_option snd (find (\<lambda>m. contains (fst m) filename) month_map)))"

text \<open>
  \<^verbatim>\<open>Series.mode().iloc[0]\<close>: the smallest of the most frequent values that are not
  missing; \<open>None\<close> when there is none (the \<^verbatim>\<open>IndexError\<close> the program catches).
\<close>

definition series_mode :: "real list \<Rightarrow> real option" where
  "series_mode xs =
     (let top = fold max (map (count_list xs) xs) 0
      in case filter (\<lambda>x. count_list xs x = top) xs of
           [] \<Rightarrow> None
         | m # ms \<Rightarrow> Some (fold min ms m))"

definition column_year :: "pylib \<Rightarrow> dataframe \<Rightarrow> string \<Rightarrow> int option" where
  \<comment> \<open>the body of the \<^verbatim>\<open>try\<close>; \<open>None\<close> when it raises\<close>
  "column_year lib df name =
     (case df_get df name of
        Inl e \<Rightarrow> None
      | Inr col \<Rightarrow>
          map_option py_int (series_mode (List.map_filter (\<lambda>x. x) (clean_column lib col))))"

fun year_fallback ::
  "pylib \<Rightarrow> dataframe \<Rightarrow> (string \<rightharpoonup> string) \<Rightarrow> string list \<Rightarrow> int option \<Rightarrow> int option"
where
  "year_fallback lib df col_map_upper [] yr = yr"
| "year_fallback lib df col_map_upper (col # rest) yr =
     (case col_map_upper (upper col) of
        None \<Rightarrow> year_fallback lib df col_map_upper rest yr
      | Some name \<Rightarrow>
          (let yr' = (case column_year lib df name of None \<Rightarrow> yr | Some y \<Rightarrow> Some y)
           in if yr' \<noteq> None \<and> yr' \<noteq> Some 0 then yr'
              else year_fallback lib df col_map_upper rest yr'))"

datatype log_msg =
  LogFile string | LogReadError string | LogYearWarning | LogFatal string

definition infer_year ::
  "pylib \<Rightarrow> dataframe \<Rightarrow> (string \<rightharpoonup> string) \<Rightarrow> int option \<Rightarrow> log_msg list \<Rightarrow> int \<times> log_msg list"
where
  "infer_year lib df col_map_upper year0 log_messages =
     (case year0 of
        Some y \<Rightarrow> (y, log_messages)
      | None \<Rightarrow>
          (case year_fallback lib df col_map_upper [''SVYYR'', ''CYEAR'', ''PUFSVYYR''] None of
             Some y \<Rightarrow> (y, log_messages)
           | None \<Rightarrow> (2020, log_messages @ [LogYearWarning])))"

subsection \<open>One release\<close>

datatype file_content = Unreadable string | Readable dataframe

record table =
  tbl_len :: nat
  tbl_columns :: "(string \<times> real option list) list"

record file_report =
  rep_file :: string
  rep_year :: int
  rep_month :: "int option"
  rep_rows :: nat
  source_columns_count :: nat
  mapped_count :: nat
  unmapped_count :: nat
  translated_count :: nat
  mapped_pct :: real
  overall_retention_pct :: real
  unmapped_columns :: "string list"
  rep_columns :: "string \<rightharpoonup> col_report"

fun select :: "(string \<rightharpoonup> 'a) \<Rightarrow> string list \<Rightarrow> py_error + (string \<times> 'a) list" where
  \<comment> \<open>\<^verbatim>\<open>d[k]\<close> for every \<open>k\<close> of a list, in its order\<close>
  "select d [] = Inr []"
| "select d (k # ks) =
     (case d k of
        None \<Rightarrow> Inl (KeyError k)
      | Some v \<Rightarrow> (case select d ks of Inl e \<Rightarrow> Inl e | Inr r \<Rightarrow> Inr ((k, v) # r)))"

definition lock_year_month ::
  "(string \<rightharpoonup> real option list) \<Rightarrow> nat \<Rightarrow> int \<Rightarrow> int option \<Rightarrow> (string \<rightharpoonup> real option list)"
where
  \<comment> \<open>\<^verbatim>\<open>out_df['PUFSVYYR'] = year\<close>, and \<^verbatim>\<open>if month: out_df['PUFSVYMO'] = month\<close>\<close>
  "lock_year_month out n_rows yr mo =
     (let out1 = out(''PUFSVYYR'' \<mapsto> replicate n_rows (Some (of_int yr)))
      in case mo of
           None \<Rightarrow> out1
         | Some m \<Rightarrow>
             if m \<noteq> 0 then out1(''PUFSVYMO'' \<mapsto> replicate n_rows (Some (of_int m)))
             else out1)"

definition harmonize ::
  "pylib \<Rightarrow> string \<Rightarrow> dataframe \<Rightarrow> (string \<rightharpoonup> string) \<Rightarrow> int \<Rightarrow> int option \<Rightarrow>
     py_error + (table \<times> file_report)"
where
  \<comment> \<open>\<^verbatim>\<open>process_file\<close> from the loop over \<^verbatim>\<open>OUTPUT_SCHEMA\<close> to its \<^verbatim>\<open>return\<close>\<close>
  "harmonize lib fname df col_map_upper yr mo =
     (let n_rows = df_len df in
      case target_loop lib df col_map_upper yr n_rows OUTPUT_SCHEMA
             \<lparr>out_df = Map.empty, col_reports = Map.empty, unmapped_cols = []\<rparr> of
        Inl e \<Rightarrow> Inl e
      | Inr st \<Rightarrow>
          (case select (lock_year_month (out_df st) n_rows yr mo) OUTPUT_SCHEMA of
             Inl e \<Rightarrow> Inl e
           | Inr out_cols \<Rightarrow>
               (case select (col_reports st) OUTPUT_SCHEMA of
                  Inl e \<Rightarrow> Inl e
                | Inr reps \<Rightarrow>
                    (let mapped_list = map fst (filter (\<lambda>p. status (snd p) \<noteq> UNMAPPED) reps);
                         unmapped_list = map fst (filter (\<lambda>p. status (snd p) = UNMAPPED) reps);
                         translated_list = map fst (filter (\<lambda>p. translated (snd p)) reps);
                         total_cells = n_rows * length OUTPUT_SCHEMA;
                         nonnull_cells = sum_list (map (\<lambda>p. final_nonnull_count (snd p)) reps)
                     in Inr (\<lparr>tbl_len = n_rows, tbl_columns = out_cols\<rparr>,
                             \<lparr>rep_file = fname, rep_year = yr, rep_month = mo,
                              rep_rows = n_rows,
                              source_columns_count = length (df_columns df),
                              mapped_count = length mapped_list,
                              unmapped_count = length unmapped_list,
                              translated_count = length translated_list,
                              mapped_pct =
                                round2 (of_nat (length mapped_list)
                                          / of_nat (length OUTPUT_SCHEMA) * 100),
                              overall_retention_pct =
                                (if total_cells \<noteq> 0
                                 then round2 (of_int nonnull_cells / of_nat total_cells * 100)
                                 else 0),
                              unmapped_columns = unmapped_list,
                              rep_columns = col_reports st\<rparr>)))))"

text \<open>
  \<^verbatim>\<open>process_file\<close>. The file's content stands for what \<^verbatim>\<open>read_csv\<close> does on the
  path: it raises with a message or returns a data frame. The list \<^verbatim>\<open>log_messages\<close>
  is appended to in place, so it is returned; of the log lines, the file header, the read
  error and the year warning are kept, the tables and summaries are left out. The result
  is \<open>Inr None\<close> for \<^verbatim>\<open>return None, None\<close>, and \<open>Inl\<close> for an exception that leaves
  the function.
\<close>

definition process_file ::
  "pylib \<Rightarrow> string \<Rightarrow> file_content \<Rightarrow> log_msg list \<Rightarrow>
     (py_error + (table \<times> file_report) option) \<times> log_msg list"
where
  "process_file lib filepath content log_messages =
     (let fname = path_name filepath;
          log1 = log_messages @ [LogFile fname]
      in case content of
           Unreadable e \<Rightarrow> (Inr None, log1 @ [LogReadError e])
         | Readable df \<Rightarrow>
             (let col_map_upper = col_map_upper_of df;
                  yl = infer_year lib df col_map_upper (fst (extract_year_month filepath)) log1
              in (case harmonize lib fname df col_map_upper (fst yl)
                         (snd (extract_year_month filepath)) of
                    Inl e \<Rightarrow> Inl e
                  | Inr r \<Rightarrow> Inr (Some r),
                  snd yl)))"

subsection \<open>All releases\<close>

text \<open>
  The loop of \<^verbatim>\<open>process_all_batched\<close> over the files, already found, deduplicated and
  sorted. A written parquet file is the table itself.
\<close>

record run_state =
  all_parquet_files :: "table list"
  all_file_reports :: "file_report list"
  errors :: "(string \<times> string) list"
  total_rows :: nat
  log_messages :: "log_msg list"

definition err_text :: "py_error \<Rightarrow> string" where
  \<comment> \<open>\<^verbatim>\<open>str(e)\<close>\<close>
  "err_text e = (case e of KeyError k \<Rightarrow> [CHR 0x27] @ k @ [CHR 0x27])"

definition file_step :: "pylib \<Rightarrow> string \<times> file_content \<Rightarrow> run_state \<Rightarrow> run_state" where
  "file_step lib f st =
     (case process_file lib (fst f) (snd f) (log_messages st) of
        (Inl e, lg) \<Rightarrow>
          st\<lparr>errors := errors st @ [(path_name (fst f), err_text e)],
             log_messages := lg @ [LogFatal (err_text e)]\<rparr>
      | (Inr None, lg) \<Rightarrow> st\<lparr>log_messages := lg\<rparr>
      | (Inr (Some (tbl, file_report)), lg) \<Rightarrow>
          st\<lparr>all_parquet_files := all_parquet_files st @ [tbl],
             all_file_reports := all_file_reports st @ [file_report],
             total_rows := total_rows st + tbl_len tbl,
             log_messages := lg\<rparr>)"

definition initial_state :: run_state where
  "initial_state =
     \<lparr>all_parquet_files = [], all_file_reports = [], errors = [], total_rows = 0,
      log_messages = []\<rparr>"

definition process_files :: "pylib \<Rightarrow> (string \<times> file_content) list \<Rightarrow> run_state" where
  "process_files lib files = fold (file_step lib) files initial_state"

text \<open>
  \<^verbatim>\<open>pd.concat(dfs, ignore_index=True)\<close> of tables that all have the columns of the
  schema, and the combination of the parquet files in batches. A batch size that is not
  positive makes \<^verbatim>\<open>range\<close> raise or leaves the loop empty, so there is no combined
  table. The sort of the combined rows by year and month is not modelled.
\<close>

definition column_of :: "table \<Rightarrow> string \<Rightarrow> real option list" where
  "column_of tbl name = (case map_of (tbl_columns tbl) name of None \<Rightarrow> [] | Some c \<Rightarrow> c)"

definition concat_tables :: "table list \<Rightarrow> table" where
  "concat_tables ts =
     \<lparr>tbl_len = sum_list (map tbl_len ts),
      tbl_columns = map (\<lambda>name. (name, concat (map (\<lambda>t. column_of t name) ts))) OUTPUT_SCHEMA\<rparr>"

function combine_loop :: "nat \<Rightarrow> table list \<Rightarrow> table option \<Rightarrow> table option" where
  "combine_loop batch_size files combined =
     (if batch_size = 0 \<or> files = [] then combined
      else
        (let batch_combined = concat_tables (take batch_size files)
         in combine_loop batch_size (drop batch_size files)
              (Some (case combined of
                       None \<Rightarrow> batch_combined
                     | Some existing \<Rightarrow> concat_tables [existing, batch_combined]))))"
  by pat_completeness auto
termination
  by (relation "measure (\<lambda>(b, fs, c). length fs)") auto

definition combine :: "int \<Rightarrow> table list \<Rightarrow> table option" where
  "combine batch_size files =
     (if batch_size \<le> 0 then None else combine_loop (nat batch_size) files None)"

section \<open>The coverage aggregator\<close>

record column_summary =
  files_total :: nat
  files_unmapped :: nat
  files_mapped :: nat
  unmapped_pct :: real
  avg_retention_when_mapped :: "real option"
  min_retention_when_mapped :: "real option"
  max_retention_when_mapped :: "real option"
  source_columns_used :: "(string \<times> nat) list"
  unmapped_in_files :: "string list"

text \<open>
  The inner loop of \<^verbatim>\<open>build_column_summary\<close> over the reports, for one column: the
  three accumulators \<^verbatim>\<open>unmapped_files\<close>, \<^verbatim>\<open>retention_vals\<close> and \<^verbatim>\<open>sources\<close>.
  The dictionary \<^verbatim>\<open>sources\<close> keeps its keys in the order of their first use.
\<close>

definition tally :: "string \<Rightarrow> (string \<times> nat) list \<Rightarrow> (string \<times> nat) list" where
  \<comment> \<open>\<^verbatim>\<open>sources[src] = sources.get(src, 0) + 1\<close>\<close>
  "tally src sources =
     (case map_of sources src of
        None \<Rightarrow> sources @ [(src, 1)]
      | Some n \<Rightarrow> map (\<lambda>p. if fst p = src then (src, n + 1) else p) sources)"

fun summary_loop ::
  "string \<Rightarrow> file_report list \<Rightarrow> string list \<times> real list \<times> (string \<times> nat) list \<Rightarrow>
     string list \<times> real list \<times> (string \<times> nat) list"
where
  "summary_loop col [] acc = acc"
| "summary_loop col (rep # reps) (unmapped_files, retention_vals, sources) =
     (case rep_columns rep col of
        None \<Rightarrow> summary_loop col reps (unmapped_files, retention_vals @ [0], sources)
      | Some info \<Rightarrow>
          if status info = UNMAPPED
          then summary_loop col reps (unmapped_files @ [rep_file rep], retention_vals, sources)
          else summary_loop col reps
                 (unmapped_files, retention_vals @ [retention_pct info],
                  (case source_col info of
                     None \<Rightarrow> sources
                   | Some src \<Rightarrow> if src \<noteq> [] then tally src sources else sources)))"

definition summarize :: "file_report list \<Rightarrow> string \<Rightarrow> column_summary" where
  "summarize all_reports col =
     (let n_files = length all_reports;
          acc = summary_loop col all_reports ([], [], []);
          unmapped_files = fst acc;
          retention_vals = fst (snd acc);
          sources = snd (snd acc)
      in \<lparr>files_total = n_files,
          files_unmapped = length unmapped_files,
          files_mapped = n_files - length unmapped_files,
          unmapped_pct =
            (if n_files \<noteq> 0
             then round2 (of_nat (length unmapped_files) / of_nat n_files * 100) else 0),
          avg_retention_when_mapped =
            (case retention_vals of
               [] \<Rightarrow> None
             | v # vs \<Rightarrow> Some (round2 (sum_list (v # vs) / of_nat (length (v # vs))))),
          min_retention_when_mapped =
            (case retention_vals of [] \<Rightarrow> None | v # vs \<Rightarrow> Some (round2 (fold min vs v))),
          max_retention_when_mapped =
            (case retention_vals of [] \<Rightarrow> None | v # vs \<Rightarrow> Some (round2 (fold max vs v))),
          source_columns_used = sources,
          unmapped_in_files = unmapped_files\<rparr>)"

definition build_column_summary :: "file_report list \<Rightarrow> (string \<times> column_summary) list" where
  "build_column_summary all_reports = map (\<lambda>col. (col, summarize all_reports col)) OUTPUT_SCHEMA"

section \<open>Notions used in the statements\<close>


text \<open>
  What one turn of the loop yields for a field when the resolver is called with the map
  built from the data frame, as \<^verbatim>\<open>process_file\<close> calls it.
\<close>

definition field_result ::
  "pylib \<Rightarrow> dataframe \<Rightarrow> int \<Rightarrow> string \<Rightarrow> real option list \<times> col_report"
where
  "field_result lib df yr target =
     (case get_column df target (col_map_upper_of df) of
        Inr (Some (col_data, source_used)) \<Rightarrow>
          mapped_target lib yr (df_len df) target col_data source_used
      | _ \<Rightarrow> unmapped_target (df_len df) target)"

text \<open>
  The \<^verbatim>\<open>final_nonnull_count\<close> a release's diagnostics record for a field, and the
  years the fallback columns offer, in the order the program tries them.
\<close>

definition recorded_final_count :: "file_report \<Rightarrow> string \<Rightarrow> int" where
  "recorded_final_count r target =
     (case rep_columns r target of None \<Rightarrow> 0 | Some cr \<Rightarrow> final_nonnull_count cr)"


text \<open>
  A small release for concrete evaluations: five rows; a region column that is present
  but empty, a second region variant filled to 80 per cent, a month column that says
  January and a marital-status column.
\<close>

definition example_df :: dataframe where
  "example_df =
     \<lparr>df_len = 5,
      df_columns =
        [(''pufreg'', \<lparr>dtype_object = False, cells = [NA, NA, NA, NA, NA]\<rparr>),
         (''Creg'', \<lparr>dtype_object = False, cells = [Num 7, Num 13, NA, Num 1, Num 2]\<rparr>),
         (''REG'', \<lparr>dtype_object = False, cells = [Num 7, Num 13, Num 5, Num 1, Num 2]\<rparr>),
         (''SVYMO'', \<lparr>dtype_object = False, cells = [Num 1, Num 1, Num 1, Num 1, Num 1]\<rparr>),
         (''C08_MS'', \<lparr>dtype_object = False, cells = [Num 6, Num 1, Num 2, NA, Num 3]\<rparr>)]\<rparr>"

text \<open>
  The column of the emitted table for a field of the schema: the locked year, the locked
  month when one was inferred, and otherwise what the loop wrote.
\<close>

definition final_column ::
  "pylib \<Rightarrow> dataframe \<Rightarrow> int \<Rightarrow> int option \<Rightarrow> string \<Rightarrow> real option list"
where
  "final_column lib df yr mo target =
     (if target = ''PUFSVYYR'' then replicate (df_len df) (Some (of_int yr))
      else case (if target = ''PUFSVYMO'' then mo else None) of
             None \<Rightarrow> fst (field_result lib df yr target)
           | Some m \<Rightarrow>
               if m \<noteq> 0 then replicate (df_len df) (Some (of_int m))
               else fst (field_result lib df yr target))"

text \<open>The year and the month \<^verbatim>\<open>process_file\<close> settles on for a release.\<close>

definition release_year :: "pylib \<Rightarrow> string \<Rightarrow> dataframe \<Rightarrow> int" where
  "release_year lib filepath df =
     fst (infer_year lib df (col_map_upper_of df) (fst (extract_year_month filepath)) [])"

definition release_month :: "string \<Rightarrow> int option" where
  "release_month filepath = snd (extract_year_month filepath)"


text \<open>
  What a run accumulates besides its log: the written tables, the per-release reports,
  the error list and the row total.
\<close>

definition aggregates ::
  "run_state \<Rightarrow> table list \<times> file_report list \<times> (string \<times> string) list \<times> nat"
where
  "aggregates st = (all_parquet_files st, all_file_reports st, errors st, total_rows st)"

section \<open>Properties of the translators\<close>

lemmas translate_defs =
  translate_rel_def translate_mstat_def translate_grade_def translate_conwr_def
  translate_natem_def translate_yesno_def translate_pclass_def translate_pbasis_def
  translate_wynot_def

lemma run_translator_missing:
  "safe_int lib x = None \<Longrightarrow> run_translator t lib x year = None"
  by (cases t) (simp_all add: translate_defs)

lemma safe_int_NA: "safe_int lib NA = None"
  by (simp add: safe_int_def safe_numeric_def)

lemma safe_int_Num: "safe_int lib (Num v) = Some (py_int v)"
  by (simp add: safe_int_def safe_numeric_def)

lemma era_of_in: "era_of t y \<in> set (eras t) \<and> in_band y (era_of t y)"
  by (cases t) (simp_all add: in_band_def)

lemma era_of_unique: "b \<in> set (eras t) \<Longrightarrow> in_band y b \<Longrightarrow> b = era_of t y"
  by (cases t) (auto simp: in_band_def)

lemma era_unique: "\<exists>!b. b \<in> set (eras t) \<and> in_band year b"
proof (rule ex1I)
  show "era_of t year \<in> set (eras t) \<and> in_band year (era_of t year)"
    by (rule era_of_in)
next
  fix b assume "b \<in> set (eras t) \<and> in_band year b"
  then show "b = era_of t year" by (simp add: era_of_unique)
qed

lemma mstat_year_tests:
  "b \<in> set (eras T_mstat) \<Longrightarrow> in_band y1 b \<Longrightarrow> in_band y2 b \<Longrightarrow>
     (y1 \<le> 2010) = (y2 \<le> 2010) \<and> (y1 \<le> 2014) = (y2 \<le> 2014) \<and> (y1 \<le> 2023) = (y2 \<le> 2023)"
  by (auto simp: in_band_def)

lemma grade_year_tests:
  "b \<in> set (eras T_grade) \<Longrightarrow> in_band y1 b \<Longrightarrow> in_band y2 b \<Longrightarrow>
     (y1 \<le> 2011) = (y2 \<le> 2011) \<and> (y1 \<le> 2016) = (y2 \<le> 2016) \<and>
     (y1 \<le> 2018) = (y2 \<le> 2018) \<and> (y1 \<le> 2022) = (y2 \<le> 2022)"
  by (auto simp: in_band_def)

lemma wynot_year_tests:
  "b \<in> set (eras T_wynot) \<Longrightarrow> in_band y1 b \<Longrightarrow> in_band y2 b \<Longrightarrow>
     (y1 < 2021) = (y2 < 2021)"
  by (auto simp: in_band_def)

lemma era_constant:
  assumes "b \<in> set (eras t)" and "in_band y1 b" and "in_band y2 b"
  shows "run_translator t lib code y1 = run_translator t lib code y2"
proof (cases t)
  case T_mstat
  with assms have "(y1 \<le> 2010) = (y2 \<le> 2010)" "(y1 \<le> 2014) = (y2 \<le> 2014)"
    "(y1 \<le> 2023) = (y2 \<le> 2023)"
    using mstat_year_tests [of b y1 y2] by simp_all
  with T_mstat show ?thesis
    by (simp only: run_translator.simps translate_mstat_def)
next
  case T_grade
  with assms have "(y1 \<le> 2011) = (y2 \<le> 2011)" "(y1 \<le> 2016) = (y2 \<le> 2016)"
    "(y1 \<le> 2018) = (y2 \<le> 2018)" "(y1 \<le> 2022) = (y2 \<le> 2022)"
    using grade_year_tests [of b y1 y2] by simp_all
  with T_grade show ?thesis
    by (simp only: run_translator.simps translate_grade_def)
next
  case T_wynot
  with assms have "(y1 < 2021) = (y2 < 2021)"
    using wynot_year_tests [of b y1 y2] by simp
  with T_wynot show ?thesis
    by (simp only: run_translator.simps translate_wynot_def)
qed (simp_all only: run_translator.simps translate_defs)

text \<open>
  Claim C5. For every registered translator and every integer release year, exactly one
  era band contains the year, and two years of the same band translate every input code
  to the same result: within a band the result depends on the code only.
\<close>

theorem era_bands_partition:
  assumes "map_of TRANSLATION_MAP field = Some t"
  shows "(\<exists>!b. b \<in> set (eras t) \<and> in_band year b) \<and>
         (\<forall>b y1 y2. b \<in> set (eras t) \<and> in_band y1 b \<and> in_band y2 b \<longrightarrow>
            run_translator t lib code y1 = run_translator t lib code y2)"
  using era_unique [of t year] era_constant [of _ t _ _ lib code] by blast

theorem era_bands_partition_witness:
  "map_of TRANSLATION_MAP ''PUFC06_MSTAT'' = Some T_mstat \<and>
   (Some 2011, Some 2014) \<in> set (eras T_mstat) \<and>
   in_band 2011 (Some 2011, Some 2014) \<and> in_band 2014 (Some 2011, Some 2014) \<and>
   run_translator T_mstat no_parse (Num 6) 2011 = run_translator T_mstat no_parse (Num 6) 2014 \<and>
   run_translator T_mstat no_parse (Num 6) 2014 = Some 7"
proof -
  have h: "map_of TRANSLATION_MAP ''PUFC06_MSTAT'' = Some T_mstat"
    by (simp add: TRANSLATION_MAP_def)
  have b: "(Some 2011, Some 2014) \<in> set (eras T_mstat)"
    "in_band 2011 (Some 2011, Some 2014)" "in_band 2014 (Some 2011, Some 2014)"
    by (simp_all add: in_band_def)
  have "run_translator T_mstat no_parse (Num 6) 2011 = run_translator T_mstat no_parse (Num 6) 2014"
    using era_bands_partition [OF h, of 2011 no_parse "Num 6"] b by blast
  moreover have "run_translator T_mstat no_parse (Num 6) 2014 = Some 7"
    by (simp add: translate_mstat_def safe_int_Num py_int_def mstat_table_2014_def)
  ultimately show ?thesis using h b by simp
qed












section \<open>Properties of the column resolver\<close>

lemma fold_upper_map:
  "fold (\<lambda>c m. m(upper c \<mapsto> c)) xs m0 k = Some name \<Longrightarrow> name \<in> set xs \<or> m0 k = Some name"
proof (induction xs arbitrary: m0)
  case Nil
  then show ?case by simp
next
  case (Cons a xs)
  from Cons.prems have "fold (\<lambda>c m. m(upper c \<mapsto> c)) xs (m0(upper a \<mapsto> a)) k = Some name"
    by (simp only: fold.simps comp_apply)
  from Cons.IH [OF this] show ?case
    by (auto split: if_splits)
qed

lemma col_map_upper_of_get:
  assumes "col_map_upper_of df k = Some name"
  shows "\<exists>col. df_get df name = Inr col"
proof -
  from assms have "name \<in> set (map fst (df_columns df))"
    using fold_upper_map [of "map fst (df_columns df)" Map.empty k name]
    by (simp add: col_map_upper_of_def)
  then have "map_of (df_columns df) name \<noteq> None"
    by (simp add: map_of_eq_None_iff)
  then show ?thesis by (auto simp: df_get_def)
qed








section \<open>Properties of the release processor\<close>

lemma get_column_loop_no_error:
  assumes "\<And>k name. cmu k = Some name \<Longrightarrow> \<exists>col. df_get df name = Inr col"
  shows "get_column_loop df cmu vs \<noteq> Inl e"
proof (induction vs)
  case Nil
  then show ?case by simp
next
  case (Cons v vs)
  show ?case
  proof (cases "cmu (upper v)")
    case None
    with Cons show ?thesis by simp
  next
    case (Some name)
    then obtain col where "df_get df name = Inr col" using assms by blast
    with Some Cons show ?thesis by simp
  qed
qed

lemma process_target_total:
  "process_target lib df (col_map_upper_of df) yr (df_len df) target =
     Inr (field_result lib df yr target)"
proof (cases "get_column df target (col_map_upper_of df)")
  case (Inl e)
  then show ?thesis
    using get_column_loop_no_error [of "col_map_upper_of df" df "priority target" e, OF col_map_upper_of_get]
    by (simp add: get_column_def)
next
  case (Inr r)
  then show ?thesis
    by (cases r) (auto simp: process_target_def field_result_def)
qed

lemma target_loop_total:
  "target_loop lib df (col_map_upper_of df) yr (df_len df) ts st =
     Inr \<lparr>out_df = (\<lambda>t. if t \<in> set ts then Some (fst (field_result lib df yr t)) else out_df st t),
          col_reports = (\<lambda>t. if t \<in> set ts then Some (snd (field_result lib df yr t))
                              else col_reports st t),
          unmapped_cols = unmapped_cols st @
             filter (\<lambda>t. status (snd (field_result lib df yr t)) = UNMAPPED) ts\<rparr>"
proof (induction ts arbitrary: st)
  case Nil
  then show ?case by simp
next
  case (Cons t ts)
  show ?case
    by (simp add: process_target_total Cons.IH split_beta fun_eq_iff)
qed

lemma select_total:
  "(\<And>k. k \<in> set ks \<Longrightarrow> d k = Some (v k)) \<Longrightarrow> select d ks = Inr (map (\<lambda>k. (k, v k)) ks)"
  by (induction ks) simp_all

lemma map_of_map_key:
  "map_of (map (\<lambda>k. (k, v k)) ks) t = (if t \<in> set ks then Some (v t) else None)"
  by (induction ks) simp_all


lemma lock_year_month_apply:
  "lock_year_month (\<lambda>t. if t \<in> set ts then Some (fst (field_result lib df yr t)) else None)
      (df_len df) yr mo t =
     (if t \<in> set ts \<or> t = ''PUFSVYYR'' \<or> (t = ''PUFSVYMO'' \<and> mo \<noteq> None \<and> mo \<noteq> Some 0)
      then Some (final_column lib df yr mo t) else None)"
  by (auto simp: lock_year_month_def final_column_def Let_def split: option.splits)

lemma harmonize_total:
  "\<exists>frep. harmonize lib fname df (col_map_upper_of df) yr mo =
       Inr (\<lparr>tbl_len = df_len df,
             tbl_columns = map (\<lambda>t. (t, final_column lib df yr mo t)) OUTPUT_SCHEMA\<rparr>, frep) \<and>
     rep_columns frep =
       (\<lambda>t. if t \<in> set OUTPUT_SCHEMA then Some (snd (field_result lib df yr t)) else None) \<and>
     rep_year frep = yr \<and> rep_month frep = mo \<and> rep_rows frep = df_len df \<and>
     rep_file frep = fname"
proof -
  define st0 where "st0 =
    \<lparr>out_df = (\<lambda>t. if t \<in> set OUTPUT_SCHEMA then Some (fst (field_result lib df yr t)) else None),
     col_reports =
       (\<lambda>t. if t \<in> set OUTPUT_SCHEMA then Some (snd (field_result lib df yr t)) else None),
     unmapped_cols =
       filter (\<lambda>t. status (snd (field_result lib df yr t)) = UNMAPPED) OUTPUT_SCHEMA\<rparr>"
  have tl: "target_loop lib df (col_map_upper_of df) yr (df_len df) OUTPUT_SCHEMA
              \<lparr>out_df = Map.empty, col_reports = Map.empty, unmapped_cols = []\<rparr> = Inr st0"
    by (simp add: target_loop_total st0_def cong: if_cong)
  have 1: "select (lock_year_month (out_df st0) (df_len df) yr mo) OUTPUT_SCHEMA =
            Inr (map (\<lambda>t. (t, final_column lib df yr mo t)) OUTPUT_SCHEMA)"
    by (rule select_total) (simp add: st0_def lock_year_month_apply)
  have 2: "select (\<lambda>t. if t \<in> set OUTPUT_SCHEMA then Some (snd (field_result lib df yr t))
                       else None) OUTPUT_SCHEMA =
            Inr (map (\<lambda>t. (t, snd (field_result lib df yr t))) OUTPUT_SCHEMA)"
    by (rule select_total) simp
  have cr: "col_reports st0 =
      (\<lambda>t. if t \<in> set OUTPUT_SCHEMA then Some (snd (field_result lib df yr t)) else None)"
    by (simp add: st0_def)
  show ?thesis
    unfolding harmonize_def Let_def by (simp add: tl 1 2 cr)
qed


lemma infer_year_log:
  "infer_year lib df cmu y0 lg =
     (fst (infer_year lib df cmu y0 []), lg @ snd (infer_year lib df cmu y0 []))"
  by (simp add: infer_year_def split: option.splits)

lemma process_file_readable:
  "\<exists>frep. process_file lib path (Readable df) lg =
       (Inr (Some (\<lparr>tbl_len = df_len df,
                    tbl_columns =
                      map (\<lambda>t. (t, final_column lib df (release_year lib path df)
                                     (release_month path) t)) OUTPUT_SCHEMA\<rparr>, frep)),
        lg @ [LogFile (path_name path)] @
          snd (infer_year lib df (col_map_upper_of df) (fst (extract_year_month path)) [])) \<and>
     rep_columns frep =
       (\<lambda>t. if t \<in> set OUTPUT_SCHEMA
            then Some (snd (field_result lib df (release_year lib path df) t)) else None) \<and>
     rep_year frep = release_year lib path df \<and> rep_month frep = release_month path \<and>
     rep_rows frep = df_len df \<and> rep_file frep = path_name path"
proof -
  obtain frep where
    h: "harmonize lib (path_name path) df (col_map_upper_of df) (release_year lib path df)
          (release_month path) =
        Inr (\<lparr>tbl_len = df_len df,
              tbl_columns =
                map (\<lambda>t. (t, final_column lib df (release_year lib path df)
                               (release_month path) t)) OUTPUT_SCHEMA\<rparr>, frep)"
    and r: "rep_columns frep =
       (\<lambda>t. if t \<in> set OUTPUT_SCHEMA
            then Some (snd (field_result lib df (release_year lib path df) t)) else None)"
      "rep_year frep = release_year lib path df" "rep_month frep = release_month path"
      "rep_rows frep = df_len df" "rep_file frep = path_name path"
    using harmonize_total [of lib "path_name path" df "release_year lib path df" "release_month path"]
    by blast
  have y: "infer_year lib df (col_map_upper_of df) (fst (extract_year_month path))
             (lg @ [LogFile (path_name path)]) =
           (release_year lib path df,
            (lg @ [LogFile (path_name path)]) @
              snd (infer_year lib df (col_map_upper_of df) (fst (extract_year_month path)) []))"
    unfolding release_year_def by (rule infer_year_log)
  have "process_file lib path (Readable df) lg =
       (Inr (Some (\<lparr>tbl_len = df_len df,
                    tbl_columns =
                      map (\<lambda>t. (t, final_column lib df (release_year lib path df)
                                     (release_month path) t)) OUTPUT_SCHEMA\<rparr>, frep)),
        lg @ [LogFile (path_name path)] @
          snd (infer_year lib df (col_map_upper_of df) (fst (extract_year_month path)) []))"
    unfolding process_file_def Let_def
    by (simp add: y release_month_def [symmetric] h)
  with r show ?thesis by blast
qed







lemma notna_count_translated:
  "notna_count (map (\<lambda>x. run_translator t lib (float_cell x) yr) xs) \<le> notna_count xs"
proof -
  have n: "run_translator t lib (float_cell None) yr = None"
    by (simp add: float_cell_def run_translator_missing safe_int_NA)
  have "length (filter (\<lambda>x. x \<noteq> None) (map (\<lambda>x. run_translator t lib (float_cell x) yr) xs))
          \<le> length (filter (\<lambda>x. x \<noteq> None) xs)"
  proof (induction xs)
    case Nil
    then show ?case by simp
  next
    case (Cons x xs)
    then show ?case using n by (cases x) auto
  qed
  then show ?thesis by (simp add: notna_count_def)
qed

lemma notna_count_of_int: "notna_count (map (map_option f) xs) = notna_count xs"
  by (induction xs) (auto simp: notna_count_def)

lemma notna_count_comp:
  "notna_count (map (map_option f \<circ> g) xs) = notna_count (map g xs)"
  by (simp only: map_map [symmetric] notna_count_of_int)

lemma notna_count_replicate_None: "notna_count (replicate n None) = 0"
  by (simp add: notna_count_def)

lemma notna_count_replicate_Some: "notna_count (replicate n (Some v)) = int n"
  by (simp add: notna_count_def)

lemma notna_count_append: "notna_count (xs @ ys) = notna_count xs + notna_count ys"
  by (simp add: notna_count_def)

lemma field_result_cases:
  obtains (mapped) col src where "get_column df target (col_map_upper_of df) = Inr (Some (col, src))"
      "field_result lib df yr target = mapped_target lib yr (df_len df) target col src"
  | (unmapped) "get_column df target (col_map_upper_of df) = Inr None"
      "field_result lib df yr target = unmapped_target (df_len df) target"
proof (cases "get_column df target (col_map_upper_of df)")
  case (Inl e)
  then show ?thesis
    using get_column_loop_no_error [of "col_map_upper_of df" df "priority target" e, OF col_map_upper_of_get]
    by (simp add: get_column_def)
next
  case (Inr r)
  then show ?thesis
    by (cases r) (auto simp: field_result_def intro: mapped unmapped)
qed


lemma field_result_count:
  "final_nonnull_count (snd (field_result lib df yr target)) =
     notna_count (fst (field_result lib df yr target))"
proof (cases rule: field_result_cases [of df target lib yr])
  case (mapped col src)
  then show ?thesis
    by (simp add: mapped_target_def Let_def notna_count_comp split: option.splits)
next
  case unmapped
  then show ?thesis by (simp add: unmapped_target_def notna_count_replicate_None)
qed


lemma example_map:
  "col_map_upper_of example_df =
     [''PUFREG'' \<mapsto> ''pufreg'', ''CREG'' \<mapsto> ''Creg'', ''REG'' \<mapsto> ''REG'',
      ''SVYMO'' \<mapsto> ''SVYMO'', ''C08_MS'' \<mapsto> ''C08_MS'']"
  by (simp add: col_map_upper_of_def example_df_def upper_def upper_char_def)

lemma example_get:
  "df_get example_df ''pufreg'' = Inr \<lparr>dtype_object = False, cells = [NA, NA, NA, NA, NA]\<rparr>"
  "df_get example_df ''Creg'' =
     Inr \<lparr>dtype_object = False, cells = [Num 7, Num 13, NA, Num 1, Num 2]\<rparr>"
  "df_get example_df ''REG'' =
     Inr \<lparr>dtype_object = False, cells = [Num 7, Num 13, Num 5, Num 1, Num 2]\<rparr>"
  "df_get example_df ''SVYMO'' =
     Inr \<lparr>dtype_object = False, cells = [Num 1, Num 1, Num 1, Num 1, Num 1]\<rparr>"
  "df_get example_df ''C08_MS'' =
     Inr \<lparr>dtype_object = False, cells = [Num 6, Num 1, Num 2, NA, Num 3]\<rparr>"
  by (simp_all add: df_get_def example_df_def)

lemma example_len: "df_len example_df = 5"
  by (simp add: example_df_def)

lemma example_get_column:
  "get_column example_df ''PUFREG'' (col_map_upper_of example_df) =
     Inr (Some (\<lparr>dtype_object = False, cells = [Num 7, Num 13, NA, Num 1, Num 2]\<rparr>, ''CREG''))"
  "get_column example_df ''PUFC06_MSTAT'' (col_map_upper_of example_df) =
     Inr (Some (\<lparr>dtype_object = False, cells = [Num 6, Num 1, Num 2, NA, Num 3]\<rparr>, ''C08_MS''))"
  "get_column example_df ''PUFSVYMO'' (col_map_upper_of example_df) =
     Inr (Some (\<lparr>dtype_object = False, cells = [Num 1, Num 1, Num 1, Num 1, Num 1]\<rparr>, ''SVYMO''))"
  "get_column example_df ''PUFSVYYR'' (col_map_upper_of example_df) = Inr None"
  by (simp_all add: get_column_def priority_def COLUMN_PRIORITY_def example_map example_get
        upper_def upper_char_def dropna_def)

lemma example_years:
  "release_year lib ''raw/LFS_2009.csv'' df = 2009"
  "release_month ''raw/LFS_2009.csv'' = None"
  "release_year lib ''raw/LFS_APR2009.csv'' df = 2009"
  "release_month ''raw/LFS_APR2009.csv'' = Some 4"
  by (simp_all add: release_year_def release_month_def infer_year_def extract_year_month_def
        path_stem_def path_name_def upper_def upper_char_def year_at_def is_digit_def
        digit_val_def month_map_def Let_def)

lemma example_mstat:
  "field_result no_parse example_df 2009 ''PUFC06_MSTAT'' =
     ([None, Some 1, Some 2, None, Some 4],
      \<lparr>status = MAPPED_TRANSLATED, source_col = Some ''C08_MS'', translated = True,
       raw_nonnull_count = 4, final_nonnull_count = 3, null_count = 2,
       retention_pct = 60, null_pct = 40, translation_loss = 1,
       candidates_searched = None\<rparr>)"
  by (simp add: field_result_def example_get_column mapped_target_def Let_def
        TRANSLATION_MAP_def clean_column_def clean_cell_def float_cell_def dropna_def
        translate_mstat_def safe_int_Num safe_int_NA py_int_def mstat_table_2010_def
        notna_count_def example_len pct_def round2_def round_half_even_def)



lemma process_file_report:
  assumes "process_file lib path (Readable df) lg = (Inr (Some (tbl, frep)), lg')"
  shows "tbl = \<lparr>tbl_len = df_len df,
               tbl_columns =
                 map (\<lambda>t. (t, final_column lib df (release_year lib path df)
                                (release_month path) t)) OUTPUT_SCHEMA\<rparr>"
    and "rep_columns frep =
           (\<lambda>t. if t \<in> set OUTPUT_SCHEMA
                then Some (snd (field_result lib df (release_year lib path df) t)) else None)"
    and "rep_year frep = release_year lib path df"
    and "rep_month frep = release_month path"
    and "rep_rows frep = df_len df"
    and "rep_file frep = path_name path"
  using process_file_readable [of lib path df lg] assms by auto




lemma month_map_range:
  assumes "release_month path = Some m"
  shows "1 \<le> m \<and> m \<le> 12"
proof -
  from assms obtain x where "find (\<lambda>m. contains (fst m) (upper (path_stem path))) month_map = Some x"
    and "snd x = m"
    by (auto simp: release_month_def extract_year_month_def Let_def)
  then have "x \<in> set month_map" by (auto simp: find_Some_iff)
  with \<open>snd x = m\<close> show ?thesis by (auto simp: month_map_def)
qed

lemma schema_year_month:
  "''PUFSVYYR'' \<in> set OUTPUT_SCHEMA" "''PUFSVYMO'' \<in> set OUTPUT_SCHEMA"
  by (simp_all add: OUTPUT_SCHEMA_def)

lemma table_column:
  assumes "process_file lib path (Readable df) lg = (Inr (Some (tbl, frep)), lg')"
    and "t \<in> set OUTPUT_SCHEMA"
  shows "map_of (tbl_columns tbl) t =
           Some (final_column lib df (release_year lib path df) (release_month path) t)"
  using assms(2) unfolding process_file_report(1) [OF assms(1)]
  by (simp add: map_of_map_key)

text \<open>
  Claim C3. For every processed release the emitted table has one row per source row, the
  year column holds the inferred year in every row whatever a source variant said, and so
  does the month column hold the inferred month when the release identifier names one.
  When it names none, nothing is assigned to the month: the release's month is unset and
  the month column is exactly what the per-field loop wrote for it.
\<close>

theorem year_month_lock:
  assumes "process_file lib path (Readable df) lg = (Inr (Some (tbl, frep)), lg')"
  shows "tbl_len tbl = df_len df \<and> rep_year frep = release_year lib path df \<and>
         map_of (tbl_columns tbl) ''PUFSVYYR'' =
           Some (replicate (df_len df) (Some (of_int (release_year lib path df)))) \<and>
         (case release_month path of
            Some m \<Rightarrow>
              rep_month frep = Some m \<and>
              map_of (tbl_columns tbl) ''PUFSVYMO'' =
                Some (replicate (df_len df) (Some (of_int m)))
          | None \<Rightarrow>
              rep_month frep = None \<and>
              map_of (tbl_columns tbl) ''PUFSVYMO'' =
                Some (fst (field_result lib df (release_year lib path df) ''PUFSVYMO'')))"
proof -
  have "tbl_len tbl = df_len df"
    unfolding process_file_report(1) [OF assms] by simp
  moreover have "map_of (tbl_columns tbl) ''PUFSVYYR'' =
      Some (replicate (df_len df) (Some (of_int (release_year lib path df))))"
    using table_column [OF assms schema_year_month(1)] by (simp add: final_column_def)
  moreover have "case release_month path of
            Some m \<Rightarrow>
              rep_month frep = Some m \<and>
              map_of (tbl_columns tbl) ''PUFSVYMO'' =
                Some (replicate (df_len df) (Some (of_int m)))
          | None \<Rightarrow>
              rep_month frep = None \<and>
              map_of (tbl_columns tbl) ''PUFSVYMO'' =
                Some (fst (field_result lib df (release_year lib path df) ''PUFSVYMO''))"
  proof (cases "release_month path")
    case None
    then show ?thesis
      using table_column [OF assms schema_year_month(2)] process_file_report(4) [OF assms]
      by (simp add: final_column_def)
  next
    case (Some m)
    with month_map_range [of path m] have "m \<noteq> 0" by auto
    with Some show ?thesis
      using table_column [OF assms schema_year_month(2)] process_file_report(4) [OF assms]
      by (simp add: final_column_def)
  qed
  ultimately show ?thesis using process_file_report(3) [OF assms] by simp
qed

lemma example_month:
  "field_result no_parse example_df 2009 ''PUFSVYMO'' =
     ([Some 1, Some 1, Some 1, Some 1, Some 1],
      \<lparr>status = MAPPED, source_col = Some ''SVYMO'', translated = False,
       raw_nonnull_count = 5, final_nonnull_count = 5, null_count = 0,
       retention_pct = 100, null_pct = 0, translation_loss = 0,
       candidates_searched = None\<rparr>)"
  by (simp add: field_result_def example_get_column mapped_target_def Let_def
        TRANSLATION_MAP_def clean_column_def clean_cell_def dropna_def
        notna_count_def example_len pct_def round2_def round_half_even_def)

theorem year_month_lock_witness:
  "\<exists>tbl frep lg' tbl2 frep2 lg2.
     process_file no_parse ''raw/LFS_APR2009.csv'' (Readable example_df) [] =
       (Inr (Some (tbl, frep)), lg') \<and>
     map_of (tbl_columns tbl) ''PUFSVYYR'' = Some [Some 2009, Some 2009, Some 2009, Some 2009, Some 2009] \<and>
     map_of (tbl_columns tbl) ''PUFSVYMO'' = Some [Some 4, Some 4, Some 4, Some 4, Some 4] \<and>
     rep_month frep = Some 4 \<and>
     process_file no_parse ''raw/LFS_2009.csv'' (Readable example_df) [] =
       (Inr (Some (tbl2, frep2)), lg2) \<and>
     map_of (tbl_columns tbl2) ''PUFSVYYR'' = Some [Some 2009, Some 2009, Some 2009, Some 2009, Some 2009] \<and>
     map_of (tbl_columns tbl2) ''PUFSVYMO'' = Some [Some 1, Some 1, Some 1, Some 1, Some 1] \<and>
     rep_month frep2 = None"
proof -
  obtain tbl frep lg' where
    p: "process_file no_parse ''raw/LFS_APR2009.csv'' (Readable example_df) [] =
          (Inr (Some (tbl, frep)), lg')"
    using process_file_readable [of no_parse "''raw/LFS_APR2009.csv''" example_df "[]"] by blast
  obtain tbl2 frep2 lg2 where
    q: "process_file no_parse ''raw/LFS_2009.csv'' (Readable example_df) [] =
          (Inr (Some (tbl2, frep2)), lg2)"
    using process_file_readable [of no_parse "''raw/LFS_2009.csv''" example_df "[]"] by blast
  have five: "replicate 5 x = [x, x, x, x, x]" for x :: "real option"
    by (simp add: numeral_eq_Suc)
  from year_month_lock [OF p] have
    "map_of (tbl_columns tbl) ''PUFSVYYR'' = Some [Some 2009, Some 2009, Some 2009, Some 2009, Some 2009]"
    "map_of (tbl_columns tbl) ''PUFSVYMO'' = Some [Some 4, Some 4, Some 4, Some 4, Some 4]"
    "rep_month frep = Some 4"
    by (simp_all add: example_years example_len five)
  moreover from year_month_lock [OF q] have
    "map_of (tbl_columns tbl2) ''PUFSVYYR'' = Some [Some 2009, Some 2009, Some 2009, Some 2009, Some 2009]"
    "map_of (tbl_columns tbl2) ''PUFSVYMO'' = Some [Some 1, Some 1, Some 1, Some 1, Some 1]"
    "rep_month frep2 = None"
    by (simp_all add: example_years example_len five example_month)
  ultimately show ?thesis using p q by blast
qed

lemma field_result_loss:
  "(\<forall>t col src. map_of TRANSLATION_MAP target = Some t \<and>
        get_column df target (col_map_upper_of df) = Inr (Some (col, src)) \<longrightarrow>
      translated (snd (field_result lib df yr target)) \<and>
      final_nonnull_count (snd (field_result lib df yr target)) =
        notna_count (map (\<lambda>x. run_translator t lib (float_cell x) yr) (clean_column lib col)) \<and>
      translation_loss (snd (field_result lib df yr target)) =
        notna_count (clean_column lib col) -
        notna_count (map (\<lambda>x. run_translator t lib (float_cell x) yr) (clean_column lib col))) \<and>
   0 \<le> translation_loss (snd (field_result lib df yr target)) \<and>
   (map_of TRANSLATION_MAP target = None \<longrightarrow>
      translation_loss (snd (field_result lib df yr target)) = 0) \<and>
   (\<not> translated (snd (field_result lib df yr target)) \<longrightarrow>
      translation_loss (snd (field_result lib df yr target)) = 0)"
proof (cases rule: field_result_cases [of df target lib yr])
  case (mapped col src)
  show ?thesis
  proof (cases "map_of TRANSLATION_MAP target")
    case None
    with mapped show ?thesis by (simp add: mapped_target_def Let_def)
  next
    case (Some t)
    with mapped show ?thesis
      using notna_count_translated [of t lib yr "clean_column lib col"]
      by (simp add: mapped_target_def Let_def)
  qed
next
  case unmapped
  then show ?thesis by (simp add: unmapped_target_def)
qed

text \<open>
  Claim C9. Every translator returns missing for a missing input. Consequently, in the
  record of a field that is resolved and has a translator, the translation loss is the
  count of cleaned values that are not missing minus the count of translated values that
  are not missing, the latter being the recorded final count; the loss is never negative,
  and it is 0 for every field without a translator and for every field that was not
  translated.
\<close>

theorem translation_loss_accounting:
  assumes "process_file lib path (Readable df) lg = (Inr (Some (tbl, frep)), lg')"
    and "rep_columns frep target = Some rep"
  shows "(\<forall>t yr. run_translator t lib NA yr = None) \<and>
         (\<forall>t col src. map_of TRANSLATION_MAP target = Some t \<and>
              get_column df target (col_map_upper_of df) = Inr (Some (col, src)) \<longrightarrow>
            translated rep \<and>
            final_nonnull_count rep =
              notna_count (map (\<lambda>x. run_translator t lib (float_cell x) (rep_year frep))
                             (clean_column lib col)) \<and>
            translation_loss rep =
              notna_count (clean_column lib col) -
              notna_count (map (\<lambda>x. run_translator t lib (float_cell x) (rep_year frep))
                             (clean_column lib col))) \<and>
         0 \<le> translation_loss rep \<and>
         (map_of TRANSLATION_MAP target = None \<longrightarrow> translation_loss rep = 0) \<and>
         (\<not> translated rep \<longrightarrow> translation_loss rep = 0)"
proof -
  from process_file_report(2) [OF assms(1)] assms(2)
  have rep: "rep = snd (field_result lib df (release_year lib path df) target)"
    by (simp split: if_splits)
  have "\<forall>t yr. run_translator t lib NA yr = None"
    by (simp add: run_translator_missing safe_int_NA)
  then show ?thesis
    unfolding rep process_file_report(3) [OF assms(1)]
    using field_result_loss [of target df lib "release_year lib path df"]
    by blast
qed

theorem translation_loss_accounting_witness:
  "\<exists>tbl frep lg' rep rep2.
     process_file no_parse ''raw/LFS_2009.csv'' (Readable example_df) [] =
       (Inr (Some (tbl, frep)), lg') \<and>
     rep_columns frep ''PUFC06_MSTAT'' = Some rep \<and>
     map_of TRANSLATION_MAP ''PUFC06_MSTAT'' = Some T_mstat \<and>
     translated rep \<and> final_nonnull_count rep = 3 \<and> translation_loss rep = 1 \<and>
     0 \<le> translation_loss rep \<and>
     rep_columns frep ''PUFREG'' = Some rep2 \<and>
     map_of TRANSLATION_MAP ''PUFREG'' = None \<and> translation_loss rep2 = 0"
proof -
  obtain tbl frep lg' where
    p: "process_file no_parse ''raw/LFS_2009.csv'' (Readable example_df) [] =
          (Inr (Some (tbl, frep)), lg')"
    using process_file_readable [of no_parse "''raw/LFS_2009.csv''" example_df "[]"] by blast
  have s: "''PUFC06_MSTAT'' \<in> set OUTPUT_SCHEMA" "''PUFREG'' \<in> set OUTPUT_SCHEMA"
    by (simp_all add: OUTPUT_SCHEMA_def)
  have r: "rep_columns frep ''PUFC06_MSTAT'' =
      Some (snd (field_result no_parse example_df 2009 ''PUFC06_MSTAT''))"
    "rep_columns frep ''PUFREG'' = Some (snd (field_result no_parse example_df 2009 ''PUFREG''))"
    using process_file_report(2) [OF p] s by (simp_all add: example_years)
  have m: "map_of TRANSLATION_MAP ''PUFC06_MSTAT'' = Some T_mstat"
    "map_of TRANSLATION_MAP ''PUFREG'' = None"
    by (simp_all add: TRANSLATION_MAP_def)
  from translation_loss_accounting [OF p r(1)]
  have "0 \<le> translation_loss (snd (field_result no_parse example_df 2009 ''PUFC06_MSTAT''))"
    by blast
  moreover from translation_loss_accounting [OF p r(2)] m(2)
  have "translation_loss (snd (field_result no_parse example_df 2009 ''PUFREG'')) = 0"
    by blast
  ultimately show ?thesis using p r m by (simp add: example_mstat)
qed








end
